theory Spec2Isabelle
  imports Main
begin

section \<open>Strings\<close>

text \<open>
  A Go string is a sequence of bytes: \<^typ>\<open>string\<close>. The functions of package
  \<^verbatim>\<open>strings\<close> that the program calls are modelled on bytes, as Go defines them.
\<close>

fun HasPrefix :: "string \<Rightarrow> string \<Rightarrow> bool" where
  "HasPrefix s [] = True"
| "HasPrefix [] (p # ps) = False"
| "HasPrefix (c # cs) (p # ps) = (c = p \<and> HasPrefix cs ps)"

definition HasSuffix :: "string \<Rightarrow> string \<Rightarrow> bool" where
  "HasSuffix s suffix = HasPrefix (rev s) (rev suffix)"

fun Contains :: "string \<Rightarrow> string \<Rightarrow> bool" where
  "Contains [] substr = (substr = [])"
| "Contains (c # cs) substr = (HasPrefix (c # cs) substr \<or> Contains cs substr)"

definition TrimPrefix :: "string \<Rightarrow> string \<Rightarrow> string" where
  "TrimPrefix s p = (if HasPrefix s p then drop (length p) s else s)"

definition TrimSuffix :: "string \<Rightarrow> string \<Rightarrow> string" where
  "TrimSuffix s p = (if HasSuffix s p then take (length s - length p) s else s)"

text \<open>
  \<^verbatim>\<open>strings.Split\<close> and \<^verbatim>\<open>strings.ReplaceAll\<close> cut at the non-overlapping
  occurrences of the separator, leftmost first. The program only ever passes a
  non-empty separator (\<^verbatim>\<open>"**"\<close>, \<^verbatim>\<open>"**/"\<close>, a newline); Go's special
  treatment of the empty separator is not needed and an empty separator is
  read here as one that never occurs.
\<close>

function Split :: "string \<Rightarrow> string \<Rightarrow> string list" where
  "Split [] sep = [[]]"
| "Split (c # cs) sep =
     (if sep \<noteq> [] \<and> HasPrefix (c # cs) sep
      then [] # Split (drop (length sep) (c # cs)) sep
      else (case Split cs sep of
              p # ps \<Rightarrow> (c # p) # ps
            | [] \<Rightarrow> [[c]]))"
  by pat_completeness auto
termination
  by (relation "measure (\<lambda>(s, sep). length s)") auto

function ReplaceAll :: "string \<Rightarrow> string \<Rightarrow> string \<Rightarrow> string" where
  "ReplaceAll [] old new = []"
| "ReplaceAll (c # cs) old new =
     (if old \<noteq> [] \<and> HasPrefix (c # cs) old
      then new @ ReplaceAll (drop (length old) (c # cs)) old new
      else c # ReplaceAll cs old new)"
  by pat_completeness auto
termination
  by (relation "measure (\<lambda>(s, old, new). length s)") auto

text \<open>
  \<^verbatim>\<open>strings.TrimSpace\<close> removes leading and trailing Unicode white space. In
  UTF-8 these are the byte sequences below (the six ASCII ones, U+0085, U+00A0,
  U+1680, U+2000 to U+200A, U+2028, U+2029, U+202F, U+205F and U+3000).
\<close>

definition white_space :: "string list" where
  "white_space =
     [[CHR 0x09], [CHR 0x0A], [CHR 0x0B], [CHR 0x0C], [CHR 0x0D], [CHR 0x20],
      [CHR 0xC2, CHR 0x85], [CHR 0xC2, CHR 0xA0],
      [CHR 0xE1, CHR 0x9A, CHR 0x80],
      [CHR 0xE2, CHR 0x80, CHR 0x80], [CHR 0xE2, CHR 0x80, CHR 0x81],
      [CHR 0xE2, CHR 0x80, CHR 0x82], [CHR 0xE2, CHR 0x80, CHR 0x83],
      [CHR 0xE2, CHR 0x80, CHR 0x84], [CHR 0xE2, CHR 0x80, CHR 0x85],
      [CHR 0xE2, CHR 0x80, CHR 0x86], [CHR 0xE2, CHR 0x80, CHR 0x87],
      [CHR 0xE2, CHR 0x80, CHR 0x88], [CHR 0xE2, CHR 0x80, CHR 0x89],
      [CHR 0xE2, CHR 0x80, CHR 0x8A],
      [CHR 0xE2, CHR 0x80, CHR 0xA8], [CHR 0xE2, CHR 0x80, CHR 0xA9],
      [CHR 0xE2, CHR 0x80, CHR 0xAF], [CHR 0xE2, CHR 0x81, CHR 0x9F],
      [CHR 0xE3, CHR 0x80, CHR 0x80]]"

text \<open>
  \<open>trim_left seqs n s\<close> strips from the front of \<open>s\<close> every leading
  occurrence of one of \<open>seqs\<close>; \<open>n\<close> counts the bytes of an occurrence already
  recognised that are still to be dropped.
\<close>

fun trim_left :: "string list \<Rightarrow> nat \<Rightarrow> string \<Rightarrow> string" where
  "trim_left seqs n [] = []"
| "trim_left seqs (Suc n) (c # cs) = trim_left seqs n cs"
| "trim_left seqs 0 (c # cs) =
     (case find (\<lambda>sp. sp \<noteq> [] \<and> HasPrefix (c # cs) sp) seqs of
        Some sp \<Rightarrow> trim_left seqs (length sp - 1) cs
      | None \<Rightarrow> c # cs)"

definition TrimSpace :: "string \<Rightarrow> string" where
  "TrimSpace s =
     rev (trim_left (map rev white_space) 0 (rev (trim_left white_space 0 s)))"

section \<open>Errors\<close>

text \<open>
  One constructor for each error the program builds with \<^verbatim>\<open>fmt.Errorf\<close>; the
  argument of a wrapping constructor is the wrapped error (\<^verbatim>\<open>%w\<close>) and the
  string argument the value the message quotes. \<open>LibError\<close> is an error value
  handed over by the standard library, the operating system or the OpenPGP
  library.
\<close>

datatype error =
    LibError string
  | UnknownSignerBackend string
  | FailedToImportGPGKey error
  | GpgCommandFailed error
  | FailedToParsePrivateKey error
  | NotAPrivateKey
  | FailedToUnlockPrivateKey error
  | FailedToCheckKeyLockStatus error
  | PrivateKeyLocked
  | FailedToReadFile error
  | FailedToCreateSigningHandle error
  | FailedToCreateDetachedSignature error
  | FailedToCreateClearSignature error
  | FailedToCreateSignature error
  | FailedToWriteSignature error
  | InvalidGlobPattern string error
  | FailedToCreateSigner error
  | FailedToGetWorkingDirectory error
  | FailedToFindFiles error
  | FailedToSignFile string error

section \<open>Signing options and the output extension (signer.go)\<close>

record SignOptions =
  Armor :: bool
  DetachSign :: bool
  ClearSign :: bool

definition getOutputExtension :: "SignOptions \<Rightarrow> string" where
  "getOutputExtension opts =
     (if ClearSign opts then ''.asc''
      else if Armor opts then ''.asc''
      else if DetachSign opts then ''.sig''
      else ''.gpg'')"

text \<open>
  The extension table of the specification, row by row: a row gives the values
  it requires of clear-signature, armored-output and detached-signature
  (\<open>None\<close> for a column the row leaves open) and its extension; the first row
  that fits the options decides.
\<close>

definition extension_table :: "(bool option \<times> bool option \<times> bool option \<times> string) list" where
  "extension_table =
     [(Some True,  None,       None,       ''.asc''),
      (Some False, Some True,  None,       ''.asc''),
      (Some False, Some False, Some True,  ''.sig''),
      (Some False, Some False, Some False, ''.gpg'')]"

definition fits :: "bool option \<Rightarrow> bool \<Rightarrow> bool" where
  "fits col v = (case col of None \<Rightarrow> True | Some b \<Rightarrow> b = v)"

definition table_extension :: "SignOptions \<Rightarrow> string option" where
  "table_extension opts =
     map_option (\<lambda>(c, a, d, ext). ext)
       (find (\<lambda>(c, a, d, ext). fits c (ClearSign opts) \<and> fits a (Armor opts) \<and> fits d (DetachSign opts))
          extension_table)"

section \<open>The OpenPGP library and the host (external collaborators)\<close>

text \<open>
  The OpenPGP library (gopenpgp) is not code of this program: its operations are
  parameters. \<open>'k\<close> is the library's key, \<open>'h\<close> its signing handle.
  \<open>sign_New k detached\<close> stands for \<^verbatim>\<open>pgp.Sign().SigningKey(k).New()\<close>, with
  \<^verbatim>\<open>.Detached()\<close> before \<^verbatim>\<open>.New()\<close> when \<open>detached\<close> holds.
\<close>

datatype encoding = EncBytes | EncArmor

record ('k, 'h) pgp_lib =
  crypto_NewKeyFromArmored :: "string \<Rightarrow> error + 'k"
  key_IsPrivate :: "'k \<Rightarrow> bool"
  key_Unlock :: "'k \<Rightarrow> string \<Rightarrow> error + 'k"
  key_IsLocked :: "'k \<Rightarrow> error + bool"
  sign_New :: "'k \<Rightarrow> bool \<Rightarrow> error + 'h"
  handle_Sign :: "'h \<Rightarrow> string \<Rightarrow> encoding \<Rightarrow> error + string"
  handle_SignCleartext :: "'h \<Rightarrow> string \<Rightarrow> error + string"

text \<open>
  The world the signers act on: the file store (path to content), the paths
  where the operating system refuses a write, and whatever else an external
  process can touch (\<open>outside\<close>: the keyring of the gpg installation).
  \<^verbatim>\<open>os.ReadFile\<close> fails on a path the store does not hold; \<^verbatim>\<open>os.WriteFile\<close>
  stores the content under the path, or is refused and stores nothing. File
  modes are not modelled, and paths are taken as written: two different
  strings name two different files.
\<close>

record 'x world =
  disk :: "string \<rightharpoonup> string"
  unwritable :: "string set"
  outside :: 'x

definition os_ReadFile :: "'x world \<Rightarrow> string \<Rightarrow> error + string" where
  "os_ReadFile w name =
     (case disk w name of
        None \<Rightarrow> Inl (LibError ''open: cannot read file'')
      | Some data \<Rightarrow> Inr data)"

definition os_WriteFile :: "'x world \<Rightarrow> string \<Rightarrow> string \<Rightarrow> error option \<times> 'x world" where
  "os_WriteFile w name data =
     (if name \<in> unwritable w then (Some (LibError ''open: cannot write file''), w)
      else (None, w\<lparr>disk := (disk w)(name \<mapsto> data)\<rparr>))"

text \<open>
  Running an external command (\<^verbatim>\<open>exec.Command(name, args...)\<close> with an optional
  standard input, then \<^verbatim>\<open>cmd.Run()\<close>): a parameter that may change the world
  in any way.
\<close>

type_synonym 'x exec = "string \<Rightarrow> string list \<Rightarrow> string option \<Rightarrow> 'x world \<Rightarrow> error option \<times> 'x world"

section \<open>The library-backed signer (GoPGPSigner)\<close>

definition NewGoPGPSigner :: "('k, 'h) pgp_lib \<Rightarrow> string \<Rightarrow> string \<Rightarrow> error + 'k" where
  "NewGoPGPSigner lib armoredKey passphrase =
     (case crypto_NewKeyFromArmored lib armoredKey of
        Inl err \<Rightarrow> Inl (FailedToParsePrivateKey err)
      | Inr key \<Rightarrow>
          if \<not> key_IsPrivate lib key then Inl NotAPrivateKey
          else
            (case (if passphrase \<noteq> [] then key_Unlock lib key passphrase else Inr key) of
               Inl err \<Rightarrow> Inl (FailedToUnlockPrivateKey err)
             | Inr key' \<Rightarrow>
                 (case key_IsLocked lib key' of
                    Inl err \<Rightarrow> Inl (FailedToCheckKeyLockStatus err)
                  | Inr locked \<Rightarrow>
                      if locked then Inl PrivateKeyLocked else Inr key')))"

definition createDetachedSignature :: "('k, 'h) pgp_lib \<Rightarrow> 'k \<Rightarrow> string \<Rightarrow> bool \<Rightarrow> error + string" where
  "createDetachedSignature lib privateKey data armor =
     (case sign_New lib privateKey True of
        Inl err \<Rightarrow> Inl (FailedToCreateSigningHandle err)
      | Inr signHandle \<Rightarrow>
          (case handle_Sign lib signHandle data (if armor then EncArmor else EncBytes) of
             Inl err \<Rightarrow> Inl (FailedToCreateDetachedSignature err)
           | Inr sig \<Rightarrow> Inr sig))"

definition createClearSignature :: "('k, 'h) pgp_lib \<Rightarrow> 'k \<Rightarrow> string \<Rightarrow> error + string" where
  "createClearSignature lib privateKey data =
     (case sign_New lib privateKey False of
        Inl err \<Rightarrow> Inl (FailedToCreateSigningHandle err)
      | Inr signHandle \<Rightarrow>
          (case handle_SignCleartext lib signHandle data of
             Inl err \<Rightarrow> Inl (FailedToCreateClearSignature err)
           | Inr clearSigned \<Rightarrow> Inr clearSigned))"

definition createInlineSignature :: "('k, 'h) pgp_lib \<Rightarrow> 'k \<Rightarrow> string \<Rightarrow> bool \<Rightarrow> error + string" where
  "createInlineSignature lib privateKey data armor =
     (case sign_New lib privateKey False of
        Inl err \<Rightarrow> Inl (FailedToCreateSigningHandle err)
      | Inr signHandle \<Rightarrow>
          (case handle_Sign lib signHandle data (if armor then EncArmor else EncBytes) of
             Inl err \<Rightarrow> Inl (FailedToCreateSignature err)
           | Inr signed \<Rightarrow> Inr signed))"

definition getOutputPath :: "string \<Rightarrow> SignOptions \<Rightarrow> string" where
  "getOutputPath filePath opts =
     (let ext = getOutputExtension opts in
      if DetachSign opts then filePath @ ext
      else if ClearSign opts then filePath @ ''.asc''
      else filePath @ ext)"

text \<open>
  The branch of \<^verbatim>\<open>GoPGPSigner.SignFile\<close> that computes the signature bytes
  from the bytes read.
\<close>

definition GoPGP_signature :: "('k, 'h) pgp_lib \<Rightarrow> 'k \<Rightarrow> string \<Rightarrow> SignOptions \<Rightarrow> error + string" where
  "GoPGP_signature lib privateKey data opts =
     (if DetachSign opts then createDetachedSignature lib privateKey data (Armor opts)
      else if ClearSign opts then createClearSignature lib privateKey data
      else createInlineSignature lib privateKey data (Armor opts))"

definition GoPGP_SignFile ::
    "('k, 'h) pgp_lib \<Rightarrow> 'k \<Rightarrow> string \<Rightarrow> SignOptions \<Rightarrow> 'x world \<Rightarrow> error option \<times> 'x world" where
  "GoPGP_SignFile lib privateKey filePath opts w =
     (case os_ReadFile w filePath of
        Inl err \<Rightarrow> (Some (FailedToReadFile err), w)
      | Inr data \<Rightarrow>
          (case GoPGP_signature lib privateKey data opts of
             Inl err \<Rightarrow> (Some err, w)
           | Inr signature \<Rightarrow>
               (case os_WriteFile w (getOutputPath filePath opts) signature of
                  (Some err, w') \<Rightarrow> (Some (FailedToWriteSignature err), w')
                | (None, w') \<Rightarrow> (None, w'))))"

section \<open>The signer that runs the system's gpg (GnuPGSigner)\<close>

definition importGPGKey :: "'x exec \<Rightarrow> string \<Rightarrow> 'x world \<Rightarrow> error option \<times> 'x world" where
  "importGPGKey run_cmd armoredKey w =
     run_cmd ''gpg'' [''--batch'', ''--import'', ''-''] (Some armoredKey) w"

definition buildArgs :: "string \<Rightarrow> SignOptions \<Rightarrow> string list" where
  "buildArgs passphrase opts =
     [''--batch'', ''--yes'']
     @ (if passphrase \<noteq> [] then [''--pinentry-mode'', ''loopback'', ''--passphrase-fd'', ''0''] else [])
     @ (if Armor opts then [''--armor''] else [])
     @ (if DetachSign opts then [''--detach-sign'']
        else if ClearSign opts then [''--clear-sign'']
        else [''--sign''])"

definition GnuPG_SignFile ::
    "'x exec \<Rightarrow> string \<Rightarrow> string \<Rightarrow> SignOptions \<Rightarrow> 'x world \<Rightarrow> error option \<times> 'x world" where
  "GnuPG_SignFile run_cmd passphrase filePath opts w =
     (case run_cmd ''gpg'' (buildArgs passphrase opts @ [filePath])
             (if passphrase \<noteq> [] then Some passphrase else None) w of
        (Some err, w') \<Rightarrow> (Some (GpgCommandFailed err), w')
      | (None, w') \<Rightarrow> (None, w'))"

section \<open>Signers and their construction (signer.go)\<close>

text \<open>
  \<^verbatim>\<open>Signer\<close> is an interface: the two signers of the program, and any other
  implementation of \<^verbatim>\<open>SignFile\<close> (the tests pass one).
\<close>

datatype ('k, 'x) signer =
    GoPGPSigner 'k
  | GnuPGSigner string
  | OtherSigner "string \<Rightarrow> SignOptions \<Rightarrow> 'x world \<Rightarrow> error option \<times> 'x world"

definition NewGnuPGSigner ::
    "'x exec \<Rightarrow> string \<Rightarrow> string \<Rightarrow> 'x world \<Rightarrow> (error + ('k, 'x) signer) \<times> 'x world" where
  "NewGnuPGSigner run_cmd armoredKey passphrase w =
     (case importGPGKey run_cmd armoredKey w of
        (Some err, w') \<Rightarrow> (Inl (FailedToImportGPGKey err), w')
      | (None, w') \<Rightarrow> (Inr (GnuPGSigner passphrase), w'))"

definition NewSigner ::
    "('k, 'h) pgp_lib \<Rightarrow> 'x exec \<Rightarrow> string \<Rightarrow> string \<Rightarrow> string \<Rightarrow> 'x world
       \<Rightarrow> (error + ('k, 'x) signer) \<times> 'x world" where
  "NewSigner lib run_cmd backend privateKey passphrase w =
     (if backend = ''gopgp'' then
        (case NewGoPGPSigner lib privateKey passphrase of
           Inl err \<Rightarrow> (Inl err, w)
         | Inr key \<Rightarrow> (Inr (GoPGPSigner key), w))
      else if backend = ''gnupg'' then NewGnuPGSigner run_cmd privateKey passphrase w
      else (Inl (UnknownSignerBackend backend), w))"

fun SignFile ::
    "('k, 'h) pgp_lib \<Rightarrow> 'x exec \<Rightarrow> ('k, 'x) signer \<Rightarrow> string \<Rightarrow> SignOptions \<Rightarrow> 'x world
       \<Rightarrow> error option \<times> 'x world" where
  "SignFile lib run_cmd (GoPGPSigner key) filePath opts w = GoPGP_SignFile lib key filePath opts w"
| "SignFile lib run_cmd (GnuPGSigner passphrase) filePath opts w =
     GnuPG_SignFile run_cmd passphrase filePath opts w"
| "SignFile lib run_cmd (OtherSigner f) filePath opts w = f filePath opts w"

section \<open>The file finder\<close>

text \<open>
  Package \<^verbatim>\<open>path/filepath\<close> and \<^verbatim>\<open>os.Stat\<close> belong to the host: the path
  separator, the lexical path functions, the pattern matcher and the file
  system behind \<^verbatim>\<open>Glob\<close>, \<^verbatim>\<open>Walk\<close> and \<^verbatim>\<open>Stat\<close>. They are parameters.
  \<open>filepath_Walk root\<close> is the sequence of calls \<^verbatim>\<open>filepath.Walk\<close> makes to
  a callback that always returns \<^verbatim>\<open>nil\<close> (the only callback the program
  passes): each call receives a path and either file information or the error
  met on the way; with such a callback \<^verbatim>\<open>Walk\<close> itself returns \<^verbatim>\<open>nil\<close>.
  The file system does not change while one resolution runs.
\<close>

datatype file_info = FileInfo (IsDir: bool)

record host =
  filepath_Separator :: char
  filepath_Join :: "string \<Rightarrow> string \<Rightarrow> string"
  filepath_Base :: "string \<Rightarrow> string"
  filepath_Rel :: "string \<Rightarrow> string \<Rightarrow> error + string"
  filepath_Match :: "string \<Rightarrow> string \<Rightarrow> error + bool"
  filepath_Glob :: "string \<Rightarrow> error + string list"
  filepath_Walk :: "string \<Rightarrow> (string \<times> (error + file_info)) list"
  os_Stat :: "string \<Rightarrow> error + file_info"

text \<open>\<^verbatim>\<open>matched, _ := filepath.Match(pattern, name)\<close>: the error is dropped.\<close>

definition matched :: "host \<Rightarrow> string \<Rightarrow> string \<Rightarrow> bool" where
  "matched h pattern name =
     (case filepath_Match h pattern name of Inl err \<Rightarrow> False | Inr m \<Rightarrow> m)"

text \<open>
  The callback of \<^verbatim>\<open>findWithGlobstar\<close>: the matches collected so far, and
  one call of \<^verbatim>\<open>Walk\<close>. \<^verbatim>\<open>filepath.Rel\<close> returns the empty string with an
  error.
\<close>

definition walkFn ::
    "host \<Rightarrow> string \<Rightarrow> string \<Rightarrow> string list \<Rightarrow> string \<times> (error + file_info) \<Rightarrow> string list" where
  "walkFn h searchDir suffix matches visit =
     (case visit of
        (path, Inl err) \<Rightarrow> matches
      | (path, Inr info) \<Rightarrow>
          if IsDir info then matches
          else if suffix \<noteq> [] then
            (if (case filepath_Match h suffix (filepath_Base h path) of
                   Inl err \<Rightarrow> True
                 | Inr m \<Rightarrow> \<not> m)
             then
               (let relPath = (case filepath_Rel h searchDir path of Inl err \<Rightarrow> [] | Inr r \<Rightarrow> r)
                in if \<not> matched h suffix relPath then matches else matches @ [path])
             else matches @ [path])
          else matches @ [path])"

definition findWithGlobstar :: "host \<Rightarrow> string \<Rightarrow> string \<Rightarrow> error + string list" where
  "findWithGlobstar h workDir pattern =
     (let parts = Split pattern ''**'' in
      if length parts \<noteq> 2 then
        filepath_Glob h (filepath_Join h workDir (ReplaceAll pattern ''**'' ''*''))
      else
        (let prefix = TrimSuffix (parts ! 0) [filepath_Separator h];
             suffix = TrimPrefix (parts ! 1) [filepath_Separator h];
             searchDir = (if prefix = [] then workDir else filepath_Join h workDir prefix)
         in Inr (foldl (walkFn h searchDir suffix) [] (filepath_Walk h searchDir))))"

fun shouldExclude_loop :: "host \<Rightarrow> string \<Rightarrow> string \<Rightarrow> string \<Rightarrow> string list \<Rightarrow> bool" where
  "shouldExclude_loop h file workDir relPath [] = False"
| "shouldExclude_loop h file workDir relPath (e # excludes) =
     (let exclude = TrimSpace e in
      if exclude = [] then shouldExclude_loop h file workDir relPath excludes
      else if matched h exclude relPath then True
      else if matched h exclude (filepath_Base h file) then True
      else if Contains exclude ''**'' \<and>
              (let simplePattern =
                     ReplaceAll (ReplaceAll exclude (''**'' @ [filepath_Separator h]) []) ''**'' []
               in simplePattern \<noteq> [] \<and>
                  (matched h simplePattern (filepath_Base h file) \<or> matched h simplePattern relPath))
           then True
      else if matched h (filepath_Join h workDir exclude) file then True
      else shouldExclude_loop h file workDir relPath excludes)"

definition shouldExclude :: "host \<Rightarrow> string \<Rightarrow> string \<Rightarrow> string list \<Rightarrow> bool" where
  "shouldExclude h file workDir excludes =
     shouldExclude_loop h file workDir
       (case filepath_Rel h workDir file of Inl err \<Rightarrow> file | Inr relPath \<Rightarrow> relPath)
       excludes"

text \<open>
  The state of the loops of \<^verbatim>\<open>FindFiles\<close>: \<^verbatim>\<open>matchedFiles\<close> and the keys of
  the map \<^verbatim>\<open>seen\<close>.
\<close>

fun add_globstar_matches ::
    "host \<Rightarrow> string \<Rightarrow> string list \<Rightarrow> string list \<Rightarrow> string list \<times> string set
       \<Rightarrow> string list \<times> string set" where
  "add_globstar_matches h workDir excludes [] st = st"
| "add_globstar_matches h workDir excludes (match # files) (matchedFiles, seen) =
     add_globstar_matches h workDir excludes files
       (if match \<notin> seen \<and> \<not> shouldExclude h match workDir excludes
        then (matchedFiles @ [match], insert match seen)
        else (matchedFiles, seen))"

fun add_glob_matches ::
    "host \<Rightarrow> string \<Rightarrow> string list \<Rightarrow> string list \<Rightarrow> string list \<times> string set
       \<Rightarrow> string list \<times> string set" where
  "add_glob_matches h workDir excludes [] st = st"
| "add_glob_matches h workDir excludes (match # matches) (matchedFiles, seen) =
     add_glob_matches h workDir excludes matches
       (if match \<in> seen then (matchedFiles, seen)
        else
          (case os_Stat h match of
             Inl err \<Rightarrow> (matchedFiles, seen)
           | Inr info \<Rightarrow>
               if IsDir info then (matchedFiles, seen)
               else if shouldExclude h match workDir excludes then (matchedFiles, seen)
               else (matchedFiles @ [match], insert match seen)))"

fun FindFiles_loop ::
    "host \<Rightarrow> string \<Rightarrow> string list \<Rightarrow> string list \<Rightarrow> string list \<times> string set
       \<Rightarrow> error + string list" where
  "FindFiles_loop h workDir excludes [] st = Inr (fst st)"
| "FindFiles_loop h workDir excludes (p # patterns) st =
     (let pattern = TrimSpace p in
      if pattern = [] then FindFiles_loop h workDir excludes patterns st
      else if Contains pattern ''**'' then
        (case findWithGlobstar h workDir pattern of
           Inl err \<Rightarrow> Inl err
         | Inr files \<Rightarrow>
             FindFiles_loop h workDir excludes patterns
               (add_globstar_matches h workDir excludes files st))
      else
        (case filepath_Glob h (filepath_Join h workDir pattern) of
           Inl err \<Rightarrow> Inl (InvalidGlobPattern pattern err)
         | Inr matches \<Rightarrow>
             FindFiles_loop h workDir excludes patterns
               (add_glob_matches h workDir excludes matches st)))"

definition FindFiles :: "host \<Rightarrow> string \<Rightarrow> string list \<Rightarrow> string list \<Rightarrow> error + string list" where
  "FindFiles h workDir patterns excludes =
     FindFiles_loop h (if workDir = [] then ''.'' else workDir) excludes patterns ([], {})"

section \<open>The orchestrator\<close>

record ActionInputs =
  PrivateKey :: string
  Passphrase :: string
  ArmorInput :: bool
  DetachSignInput :: bool
  ClearSignInput :: bool
  Files :: string
  Excludes :: string
  WorkDir :: string
  Backend :: string
  LogLevel :: string

text \<open>What \<^verbatim>\<open>run\<close> reads of the process environment.\<close>

record environ =
  GITHUB_WORKSPACE :: string
  os_Getwd :: "error + string"

definition parseMultilineInput :: "string \<Rightarrow> string list" where
  "parseMultilineInput input = filter (\<lambda>line. line \<noteq> []) (map TrimSpace (Split input [CHR 0x0A]))"

text \<open>
  The loop of \<^verbatim>\<open>run\<close> over the files. Its result is the error returned, if
  any, the paths on which \<^verbatim>\<open>SignFile\<close> was invoked, in the order of the
  invocations, and the world left behind.
\<close>

fun sign_files ::
    "('k, 'h) pgp_lib \<Rightarrow> 'x exec \<Rightarrow> ('k, 'x) signer \<Rightarrow> SignOptions \<Rightarrow> string list \<Rightarrow> 'x world
       \<Rightarrow> error option \<times> string list \<times> 'x world" where
  "sign_files lib run_cmd signer opts [] w = (None, [], w)"
| "sign_files lib run_cmd signer opts (file # rest) w =
     (case SignFile lib run_cmd signer file opts w of
        (Some err, w') \<Rightarrow> (Some (FailedToSignFile file err), [file], w')
      | (None, w') \<Rightarrow>
          (case sign_files lib run_cmd signer opts rest w' of
             (r, invoked, w'') \<Rightarrow> (r, file # invoked, w'')))"

text \<open>
  \<^verbatim>\<open>run\<close>. A signer or a finder that is \<^verbatim>\<open>nil\<close> is \<open>None\<close>; logging has no
  part in the result and is left out.
\<close>

definition run ::
    "('k, 'h) pgp_lib \<Rightarrow> 'x exec \<Rightarrow> host \<Rightarrow> environ \<Rightarrow> ActionInputs \<Rightarrow> ('k, 'x) signer option
       \<Rightarrow> (string \<Rightarrow> string list \<Rightarrow> string list \<Rightarrow> error + string list) option \<Rightarrow> 'x world
       \<Rightarrow> error option \<times> string list \<times> 'x world" where
  "run lib run_cmd h env args signer finder w =
     (case (case signer of
              Some s \<Rightarrow> (Inr s, w)
            | None \<Rightarrow> NewSigner lib run_cmd (Backend args) (PrivateKey args) (Passphrase args) w) of
        (Inl err, w1) \<Rightarrow> (Some (FailedToCreateSigner err), [], w1)
      | (Inr signer', w1) \<Rightarrow>
          (let findFiles = (case finder of Some f \<Rightarrow> f | None \<Rightarrow> FindFiles h);
               workDir1 = (if WorkDir args = [] then GITHUB_WORKSPACE env else WorkDir args)
           in case (if workDir1 = [] then os_Getwd env else Inr workDir1) of
                Inl err \<Rightarrow> (Some (FailedToGetWorkingDirectory err), [], w1)
              | Inr workDir \<Rightarrow>
                  (let opts = \<lparr>Armor = ArmorInput args, DetachSign = DetachSignInput args,
                                ClearSign = ClearSignInput args\<rparr>;
                       patterns = parseMultilineInput (Files args);
                       excludes = parseMultilineInput (Excludes args)
                   in case findFiles workDir patterns excludes of
                        Inl err \<Rightarrow> (Some (FailedToFindFiles err), [], w1)
                      | Inr files \<Rightarrow>
                          if files = [] then (None, [], w1)
                          else sign_files lib run_cmd signer' opts files w1)))"

section \<open>Notions of the specification\<close>

subsection \<open>Signing modes\<close>





subsection \<open>Signing a list of files without failure\<close>

text \<open>
  The world reached when \<^verbatim>\<open>SignFile\<close> is invoked on the files one after the
  other and succeeds on each; \<open>None\<close> if one of the invocations fails.
\<close>

fun signed_in_order ::
    "('k, 'h) pgp_lib \<Rightarrow> 'x exec \<Rightarrow> ('k, 'x) signer \<Rightarrow> SignOptions \<Rightarrow> string list \<Rightarrow> 'x world
       \<Rightarrow> 'x world option" where
  "signed_in_order lib run_cmd signer opts [] w = Some w"
| "signed_in_order lib run_cmd signer opts (file # rest) w =
     (case SignFile lib run_cmd signer file opts w of
        (None, w') \<Rightarrow> signed_in_order lib run_cmd signer opts rest w'
      | (Some err, w') \<Rightarrow> None)"

subsection \<open>The four exclusion rules\<close>

text \<open>
  The rules of the specification for one exclude pattern (trimmed, not empty)
  and one candidate file: (a) the pattern matches the path relative to the
  working directory (the path itself when it cannot be made relative); (b) it
  matches the base name; (c) it has a recursive wildcard and its
  wildcard-stripped form, if not empty, matches the base name or the relative
  path; (d) joined with the working directory it matches the full path. A
  pattern the matcher rejects matches nothing.
\<close>

definition relative_path :: "host \<Rightarrow> string \<Rightarrow> string \<Rightarrow> string" where
  "relative_path h workDir file =
     (case filepath_Rel h workDir file of Inl err \<Rightarrow> file | Inr relPath \<Rightarrow> relPath)"

definition wildcard_stripped :: "host \<Rightarrow> string \<Rightarrow> string" where
  "wildcard_stripped h exclude =
     ReplaceAll (ReplaceAll exclude (''**'' @ [filepath_Separator h]) []) ''**'' []"

definition rule_relative :: "host \<Rightarrow> string \<Rightarrow> string \<Rightarrow> string \<Rightarrow> bool" where
  "rule_relative h workDir file exclude = matched h exclude (relative_path h workDir file)"

definition rule_base :: "host \<Rightarrow> string \<Rightarrow> string \<Rightarrow> bool" where
  "rule_base h file exclude = matched h exclude (filepath_Base h file)"

definition rule_recursive :: "host \<Rightarrow> string \<Rightarrow> string \<Rightarrow> string \<Rightarrow> bool" where
  "rule_recursive h workDir file exclude =
     (Contains exclude ''**'' \<and> wildcard_stripped h exclude \<noteq> [] \<and>
      (matched h (wildcard_stripped h exclude) (filepath_Base h file) \<or>
       matched h (wildcard_stripped h exclude) (relative_path h workDir file)))"

definition rule_full :: "host \<Rightarrow> string \<Rightarrow> string \<Rightarrow> string \<Rightarrow> bool" where
  "rule_full h workDir file exclude = matched h (filepath_Join h workDir exclude) file"

definition excluded_by :: "host \<Rightarrow> string \<Rightarrow> string \<Rightarrow> string \<Rightarrow> bool" where
  "excluded_by h workDir file exclude =
     (rule_relative h workDir file exclude \<or> rule_base h file exclude \<or>
      rule_recursive h workDir file exclude \<or> rule_full h workDir file exclude)"

subsection \<open>Merge order and first-seen deduplication\<close>

text \<open>Every element once, at the place of its first occurrence.\<close>

fun first_seen :: "'a list \<Rightarrow> 'a list" where
  "first_seen [] = []"
| "first_seen (x # xs) = x # first_seen (filter (\<lambda>y. y \<noteq> x) xs)"

text \<open>
  The files one include pattern contributes, in the order in which they are
  found: the matches of the pattern that are not excluded and, for a pattern
  without recursive wildcard, that \<^verbatim>\<open>os.Stat\<close> finds and reports not to be a
  directory.
\<close>

definition stat_file :: "host \<Rightarrow> string \<Rightarrow> bool" where
  "stat_file h path = (case os_Stat h path of Inl err \<Rightarrow> False | Inr info \<Rightarrow> \<not> IsDir info)"

definition pattern_files :: "host \<Rightarrow> string \<Rightarrow> string list \<Rightarrow> string \<Rightarrow> string list" where
  "pattern_files h workDir excludes p =
     (let pattern = TrimSpace p in
      if pattern = [] then []
      else if Contains pattern ''**'' then
        (case findWithGlobstar h workDir pattern of
           Inl err \<Rightarrow> []
         | Inr found \<Rightarrow> filter (\<lambda>m. \<not> shouldExclude h m workDir excludes) found)
      else
        (case filepath_Glob h (filepath_Join h workDir pattern) of
           Inl err \<Rightarrow> []
         | Inr matches \<Rightarrow>
             filter (\<lambda>m. stat_file h m \<and> \<not> shouldExclude h m workDir excludes) matches))"

definition merge_order :: "host \<Rightarrow> string \<Rightarrow> string list \<Rightarrow> string list \<Rightarrow> string list" where
  "merge_order h workDir patterns excludes =
     concat (map (pattern_files h (if workDir = [] then ''.'' else workDir) excludes) patterns)"

subsection \<open>Malformed include patterns\<close>


subsection \<open>Resolution of a recursive wildcard by walking\<close>

text \<open>
  The resolution the specification describes: the pattern is split at its
  recursive wildcard into a prefix and a suffix (a separator next to the
  wildcard is dropped from either), the subtree rooted at the prefix under the
  working directory is walked, and a regular file is admitted if the suffix is
  empty or matches its base name or its path relative to the walked root.
\<close>

definition walk_admits :: "host \<Rightarrow> string \<Rightarrow> string \<Rightarrow> string \<times> (error + file_info) \<Rightarrow> bool" where
  "walk_admits h root suffix visit =
     (case snd visit of
        Inl err \<Rightarrow> False
      | Inr info \<Rightarrow>
          \<not> IsDir info \<and>
          (suffix = [] \<or> matched h suffix (filepath_Base h (fst visit)) \<or>
           matched h suffix (case filepath_Rel h root (fst visit) of Inl err \<Rightarrow> [] | Inr r \<Rightarrow> r)))"

definition walk_resolution :: "host \<Rightarrow> string \<Rightarrow> string \<Rightarrow> string list" where
  "walk_resolution h workDir pattern =
     (let part = hd (Split pattern ''**'');
          prefix = TrimSuffix part [filepath_Separator h];
          suffix = TrimPrefix (drop (length part + 2) pattern) [filepath_Separator h];
          root = (if prefix = [] then workDir else filepath_Join h workDir prefix)
      in map fst (filter (walk_admits h root suffix) (filepath_Walk h root)))"

section \<open>A small library and a small host, to run the definitions\<close>

text \<open>
  A stand-in for the OpenPGP library: a key is private or not, protected by a
  passphrase or not, and unlocked or not; a signature is a text that shows how
  it was made.
\<close>

datatype sample_key = SampleKey (is_private: bool) (protection: "string option") (unlocked: bool)

definition sample_lib :: "(sample_key, bool) pgp_lib" where
  "sample_lib =
     \<lparr>crypto_NewKeyFromArmored =
        (\<lambda>armored.
           if armored = ''PRIVATE KEY'' then Inr (SampleKey True None True)
           else if armored = ''PROTECTED PRIVATE KEY'' then Inr (SampleKey True (Some ''secret123'') False)
           else if armored = ''PUBLIC KEY'' then Inr (SampleKey False None True)
           else Inl (LibError ''no armored key'')),
      key_IsPrivate = is_private,
      key_Unlock =
        (\<lambda>key passphrase.
           if unlocked key then Inl (LibError ''key is not locked'')
           else if protection key = Some passphrase
             then Inr (SampleKey (is_private key) (protection key) True)
           else Inl (LibError ''wrong passphrase'')),
      key_IsLocked = (\<lambda>key. Inr (\<not> unlocked key)),
      sign_New = (\<lambda>key detached. if unlocked key then Inr detached else Inl (LibError ''key is locked'')),
      handle_Sign =
        (\<lambda>detached data enc.
           Inr ((if enc = EncArmor then ''-----BEGIN PGP '' else ''binary '')
                @ (if detached then ''SIGNATURE'' else ''MESSAGE '' @ data))),
      handle_SignCleartext = (\<lambda>detached data. Inr (''-----BEGIN PGP SIGNED MESSAGE----- '' @ data))\<rparr>"

text \<open>A file store with two files, and a machine without gpg.\<close>

definition sample_world :: "unit world" where
  "sample_world =
     \<lparr>disk = [''a.txt'' \<mapsto> ''alpha'', ''c.txt'' \<mapsto> ''gamma''], unwritable = {}, outside = ()\<rparr>"

definition no_gpg :: "unit exec" where
  "no_gpg name args stdin w = (Some (LibError ''exec: gpg: executable file not found''), w)"

text \<open>
  A Unix host whose working directory \<^verbatim>\<open>w\<close> holds the files \<^verbatim>\<open>a.txt\<close> and
  \<^verbatim>\<open>b.sha256\<close> and the directory \<^verbatim>\<open>d\<close> with the file \<^verbatim>\<open>c.txt\<close>. The tree is
  listed in the order \<^verbatim>\<open>Walk\<close> visits it. The path functions below answer as
  Go's do on clean relative paths, and the matcher as Go's does on patterns
  made of literal characters and \<^verbatim>\<open>*\<close> (any run of characters other than the
  separator), and on a pattern with an unclosed \<^verbatim>\<open>[\<close>, which Go rejects with
  \<^verbatim>\<open>ErrBadPattern\<close> (message: syntax error in pattern).
\<close>

definition sample_tree :: "(string \<times> bool) list" where
  "sample_tree =
     [(''w'', True), (''w/a.txt'', False), (''w/b.sha256'', False), (''w/d'', True),
      (''w/d/c.txt'', False)]"

fun star_match :: "string \<Rightarrow> string \<Rightarrow> bool" where
  "star_match [] [] = True"
| "star_match [] (c # cs) = False"
| "star_match (p # ps) [] = (p = CHR ''*'' \<and> star_match ps [])"
| "star_match (p # ps) (c # cs) =
     (if p = CHR ''*'' then star_match ps (c # cs) \<or> (c \<noteq> CHR ''/'' \<and> star_match (p # ps) cs)
      else p = c \<and> star_match ps cs)"

definition sample_Match :: "string \<Rightarrow> string \<Rightarrow> error + bool" where
  "sample_Match pattern name =
     (if CHR ''['' \<in> set pattern \<and> CHR '']'' \<notin> set pattern
      then Inl (LibError ''syntax error in pattern'')
      else Inr (star_match pattern name))"

definition sample_host :: host where
  "sample_host =
     \<lparr>filepath_Separator = CHR ''/'',
      filepath_Join = (\<lambda>dir name. if dir = [] then name else if name = [] then dir else dir @ ''/'' @ name),
      filepath_Base = (\<lambda>path. if path = [] then ''.'' else rev (takeWhile (\<lambda>c. c \<noteq> CHR ''/'') (rev path))),
      filepath_Rel =
        (\<lambda>base target.
           if target = base then Inr ''.''
           else if HasPrefix target (base @ ''/'') then Inr (drop (length base + 1) target)
           else Inl (LibError ''Rel: target outside base'')),
      filepath_Match = sample_Match,
      filepath_Glob =
        (\<lambda>pattern.
           case sample_Match pattern [] of
             Inl err \<Rightarrow> Inl err
           | Inr m \<Rightarrow> Inr (filter (\<lambda>path. sample_Match pattern path = Inr True) (map fst sample_tree))),
      filepath_Walk =
        (\<lambda>root.
           if root \<in> set (map fst sample_tree)
           then map (\<lambda>(path, dir). (path, Inr (FileInfo dir)))
                  (filter (\<lambda>(path, dir). path = root \<or> HasPrefix path (root @ ''/'')) sample_tree)
           else [(root, Inl (LibError ''lstat: no such file or directory''))]),
      os_Stat =
        (\<lambda>path.
           case map_of sample_tree path of
             None \<Rightarrow> Inl (LibError ''stat: no such file or directory'')
           | Some dir \<Rightarrow> Inr (FileInfo dir))\<rparr>"

text \<open>
  An invocation of the action on that machine: the library-backed signer,
  binary detached signatures, and a finder that names three files of which the
  second, \<^verbatim>\<open>b.txt\<close>, is not in the file store.
\<close>

definition sample_args :: ActionInputs where
  "sample_args =
     \<lparr>PrivateKey = ''PRIVATE KEY'', Passphrase = [], ArmorInput = False, DetachSignInput = True,
      ClearSignInput = False, Files = ''*.txt'', Excludes = [], WorkDir = ''w'', Backend = ''gopgp'',
      LogLevel = ''info''\<rparr>"

definition sample_env :: environ where
  "sample_env = \<lparr>GITHUB_WORKSPACE = [], os_Getwd = Inr ''/home/runner''\<rparr>"

definition three_files :: "string \<Rightarrow> string list \<Rightarrow> string list \<Rightarrow> error + string list" where
  "three_files workDir patterns excludes = Inr [''a.txt'', ''b.txt'', ''c.txt'']"

section \<open>The output extension\<close>

text \<open>
  C1. For each of the eight combinations of the three flags,
  \<^verbatim>\<open>getOutputExtension\<close> returns the extension the table of the specification
  gives: \<^verbatim>\<open>.asc\<close> whenever clear-signature is set, otherwise \<^verbatim>\<open>.asc\<close> whenever
  armored-output is set, otherwise \<^verbatim>\<open>.sig\<close> for a detached signature and
  \<^verbatim>\<open>.gpg\<close> else.
\<close>

theorem getOutputExtension_matches_table:
  "table_extension opts = Some (getOutputExtension opts) \<and>
   map (\<lambda>(c, a, d). getOutputExtension \<lparr>Armor = a, DetachSign = d, ClearSign = c\<rparr>)
     [(True, True, True), (True, True, False), (True, False, True), (True, False, False),
      (False, True, True), (False, True, False), (False, False, True), (False, False, False)]
   = [''.asc'', ''.asc'', ''.asc'', ''.asc'', ''.asc'', ''.asc'', ''.sig'', ''.gpg'']"
  by (cases opts)
     (auto simp: table_extension_def extension_table_def fits_def getOutputExtension_def)

section \<open>The signing mode\<close>


section \<open>What signing a file changes\<close>






section \<open>Creating a signer\<close>

text \<open>
  C9. For a private key that is locked as parsed: without a passphrase
  \<^verbatim>\<open>NewGoPGPSigner\<close> fails with the locked-key error; with a passphrase the
  library refuses, it fails with the unlock error that wraps the library's;
  the two errors differ; and whenever \<^verbatim>\<open>NewGoPGPSigner\<close> succeeds, the key it
  holds is not locked.
\<close>

theorem NewGoPGPSigner_lock_errors:
  assumes "crypto_NewKeyFromArmored lib armoredKey = Inr key"
      and "key_IsPrivate lib key"
      and "key_IsLocked lib key = Inr True"
      and "wrong \<noteq> []"
      and "key_Unlock lib key wrong = Inl err"
  shows "NewGoPGPSigner lib armoredKey [] = Inl PrivateKeyLocked \<and>
         NewGoPGPSigner lib armoredKey wrong = Inl (FailedToUnlockPrivateKey err) \<and>
         PrivateKeyLocked \<noteq> FailedToUnlockPrivateKey err \<and>
         (\<forall>passphrase key'. NewGoPGPSigner lib armoredKey passphrase = Inr key' \<longrightarrow>
            key_IsLocked lib key' = Inr False)"
  using assms
  by (auto simp: NewGoPGPSigner_def split: sum.splits if_splits)

theorem NewGoPGPSigner_lock_errors_witness:
  "NewGoPGPSigner sample_lib ''PROTECTED PRIVATE KEY'' [] = Inl PrivateKeyLocked \<and>
   NewGoPGPSigner sample_lib ''PROTECTED PRIVATE KEY'' ''wrongpass''
     = Inl (FailedToUnlockPrivateKey (LibError ''wrong passphrase'')) \<and>
   NewGoPGPSigner sample_lib ''PROTECTED PRIVATE KEY'' ''secret123''
     = Inr (SampleKey True (Some ''secret123'') True) \<and>
   key_IsLocked sample_lib (SampleKey True (Some ''secret123'') True) = Inr False"
proof -
  have parsed: "crypto_NewKeyFromArmored sample_lib ''PROTECTED PRIVATE KEY''
                 = Inr (SampleKey True (Some ''secret123'') False)"
    by (simp add: sample_lib_def)
  have isprivate: "key_IsPrivate sample_lib (SampleKey True (Some ''secret123'') False)"
    by (simp add: sample_lib_def)
  have islocked: "key_IsLocked sample_lib (SampleKey True (Some ''secret123'') False) = Inr True"
    by (simp add: sample_lib_def)
  have nonempty: "''wrongpass'' \<noteq> []" by simp
  have refused: "key_Unlock sample_lib (SampleKey True (Some ''secret123'') False) ''wrongpass''
                   = Inl (LibError ''wrong passphrase'')"
    by (simp add: sample_lib_def)
  have ok: "NewGoPGPSigner sample_lib ''PROTECTED PRIVATE KEY'' ''secret123''
              = Inr (SampleKey True (Some ''secret123'') True)"
    by (simp add: NewGoPGPSigner_def sample_lib_def)
  show ?thesis
    using NewGoPGPSigner_lock_errors[OF parsed isprivate islocked nonempty refused] ok by simp
qed

text \<open>
  C10. For a backend other than \<^verbatim>\<open>gopgp\<close> and \<^verbatim>\<open>gnupg\<close>, \<^verbatim>\<open>NewSigner\<close> returns
  the error that names the backend and no signer, whatever the library and the
  command runner are, and leaves the world untouched: the key is neither
  parsed nor imported.
\<close>

theorem NewSigner_unknown_backend:
  assumes "backend \<noteq> ''gopgp''" and "backend \<noteq> ''gnupg''"
  shows "NewSigner lib run_cmd backend privateKey passphrase w =
           (Inl (UnknownSignerBackend backend), w)"
  using assms by (simp add: NewSigner_def)

theorem NewSigner_unknown_backend_witness:
  "NewSigner sample_lib no_gpg ''invalid'' ''key'' [] sample_world
     = (Inl (UnknownSignerBackend ''invalid''), sample_world)"
  using NewSigner_unknown_backend[of "''invalid''" sample_lib no_gpg "''key''" "[]" sample_world]
  by simp

section \<open>Fail-fast signing\<close>

lemma sign_files_fail_fast:
  "signed_in_order lib run_cmd sg opts pre w1 = Some w2 \<Longrightarrow>
   SignFile lib run_cmd sg fk opts w2 = (Some err, w3) \<Longrightarrow>
   sign_files lib run_cmd sg opts (pre @ fk # post) w1
     = (Some (FailedToSignFile fk err), pre @ [fk], w3)"
proof (induction pre arbitrary: w1)
  case Nil
  then show ?case by simp
next
  case (Cons f pre)
  then show ?case by (auto split: prod.splits option.splits)
qed

lemma GoPGP_SignFile_keeps:
  "GoPGP_SignFile lib key f opts w = (r, w') \<Longrightarrow> disk w p \<noteq> None \<Longrightarrow> disk w' p \<noteq> None"
  by (auto simp: GoPGP_SignFile_def os_ReadFile_def os_WriteFile_def
      split: option.splits sum.splits if_splits)

lemma GoPGP_SignFile_artifact:
  "GoPGP_SignFile lib key f opts w = (None, w') \<Longrightarrow> disk w' (getOutputPath f opts) \<noteq> None"
  by (auto simp: GoPGP_SignFile_def os_ReadFile_def os_WriteFile_def
      split: option.splits sum.splits if_splits)

lemma GoPGP_signed_keeps:
  "signed_in_order lib run_cmd (GoPGPSigner key) opts fs w = Some w' \<Longrightarrow>
   disk w p \<noteq> None \<Longrightarrow> disk w' p \<noteq> None"
proof (induction fs arbitrary: w)
  case Nil
  then show ?case by simp
next
  case (Cons f fs)
  then show ?case
    by (auto split: prod.splits option.splits dest: GoPGP_SignFile_keeps)
qed

lemma GoPGP_signed_artifacts:
  "signed_in_order lib run_cmd (GoPGPSigner key) opts fs w = Some w' \<Longrightarrow> f \<in> set fs \<Longrightarrow>
   disk w' (getOutputPath f opts) \<noteq> None"
proof (induction fs arbitrary: w)
  case Nil
  then show ?case by simp
next
  case (Cons g fs)
  obtain w1 where s: "GoPGP_SignFile lib key g opts w = (None, w1)"
     and r: "signed_in_order lib run_cmd (GoPGPSigner key) opts fs w1 = Some w'"
    using Cons.prems(1) by (auto split: prod.splits option.splits)
  show ?case
  proof (cases "f = g")
    case True
    then show ?thesis using GoPGP_SignFile_artifact[OF s] GoPGP_signed_keeps[OF r] by blast
  next
    case False
    then show ?thesis using Cons.IH[OF r] Cons.prems(2) by simp
  qed
qed

text \<open>
  C3. Let \<^verbatim>\<open>run\<close> have its signer and its working directory, and let the
  finder return the files \<open>pre @ fk # post\<close>. If \<^verbatim>\<open>SignFile\<close> succeeds on the
  files of \<open>pre\<close>, one after the other, and then fails on \<open>fk\<close>, then \<^verbatim>\<open>run\<close>
  returns that error wrapped with the path \<open>fk\<close>; \<^verbatim>\<open>SignFile\<close> has been
  invoked on \<open>pre\<close> and \<open>fk\<close>, in the finder's order, and on no file of
  \<open>post\<close>; and the world is the one the failed invocation left, nothing being
  undone. With the library-backed signer that world holds the signature
  artifact of every file of \<open>pre\<close>.
\<close>

theorem run_fail_fast:
  assumes signer: "(case signer of
                      Some s \<Rightarrow> (Inr s, w)
                    | None \<Rightarrow> NewSigner lib run_cmd (Backend args) (PrivateKey args) (Passphrase args) w)
                   = (Inr sg, w1)"
      and workDir: "(if (if WorkDir args = [] then GITHUB_WORKSPACE env else WorkDir args) = []
                     then os_Getwd env
                     else Inr (if WorkDir args = [] then GITHUB_WORKSPACE env else WorkDir args))
                    = Inr workDir"
      and found: "(case finder of Some f \<Rightarrow> f | None \<Rightarrow> FindFiles h) workDir
                     (parseMultilineInput (Files args)) (parseMultilineInput (Excludes args))
                  = Inr (pre @ fk # post)"
      and opts: "opts = \<lparr>Armor = ArmorInput args, DetachSign = DetachSignInput args,
                         ClearSign = ClearSignInput args\<rparr>"
      and before: "signed_in_order lib run_cmd sg opts pre w1 = Some w2"
      and fails: "SignFile lib run_cmd sg fk opts w2 = (Some err, w3)"
  shows "run lib run_cmd h env args signer finder w
           = (Some (FailedToSignFile fk err), pre @ [fk], w3) \<and>
         (\<forall>key. sg = GoPGPSigner key \<longrightarrow>
            (\<forall>f \<in> set pre. disk w3 (getOutputPath f opts) \<noteq> None))"
proof -
  have "run lib run_cmd h env args signer finder w
          = sign_files lib run_cmd sg opts (pre @ fk # post) w1"
    using signer workDir found opts by (simp add: run_def Let_def)
  then have a: "run lib run_cmd h env args signer finder w
                  = (Some (FailedToSignFile fk err), pre @ [fk], w3)"
    using sign_files_fail_fast[OF before fails] by simp
  have b: "disk w3 (getOutputPath f opts) \<noteq> None" if "sg = GoPGPSigner key" "f \<in> set pre" for key f
  proof -
    have written: "disk w2 (getOutputPath f opts) \<noteq> None"
      using GoPGP_signed_artifacts[of lib run_cmd key opts pre w1 w2 f] before that by simp
    have failed: "GoPGP_SignFile lib key fk opts w2 = (Some err, w3)"
      using fails that by simp
    show ?thesis
      using GoPGP_SignFile_keeps[OF failed written] .
  qed
  show ?thesis using a b by blast
qed

theorem run_fail_fast_witness:
  "run sample_lib no_gpg sample_host sample_env sample_args None (Some three_files) sample_world
     = (Some (FailedToSignFile ''b.txt'' (FailedToReadFile (LibError ''open: cannot read file''))),
        [''a.txt'', ''b.txt''],
        sample_world\<lparr>disk := (disk sample_world)(''a.txt.sig'' \<mapsto> ''binary SIGNATURE'')\<rparr>) \<and>
   disk (sample_world\<lparr>disk := (disk sample_world)(''a.txt.sig'' \<mapsto> ''binary SIGNATURE'')\<rparr>)
     (getOutputPath ''a.txt'' \<lparr>Armor = False, DetachSign = True, ClearSign = False\<rparr>) \<noteq> None \<and>
   disk (sample_world\<lparr>disk := (disk sample_world)(''a.txt.sig'' \<mapsto> ''binary SIGNATURE'')\<rparr>)
     (getOutputPath ''c.txt'' \<lparr>Armor = False, DetachSign = True, ClearSign = False\<rparr>) = None"
proof -
  let ?opts = "\<lparr>Armor = False, DetachSign = True, ClearSign = False\<rparr>"
  let ?key = "SampleKey True None True"
  let ?w2 = "sample_world\<lparr>disk := (disk sample_world)(''a.txt.sig'' \<mapsto> ''binary SIGNATURE'')\<rparr>"
  have signer: "(case None of
                   Some s \<Rightarrow> (Inr s, sample_world)
                 | None \<Rightarrow> NewSigner sample_lib no_gpg (Backend sample_args) (PrivateKey sample_args)
                             (Passphrase sample_args) sample_world)
                = (Inr (GoPGPSigner ?key), sample_world)"
    by (simp add: NewSigner_def NewGoPGPSigner_def sample_args_def sample_lib_def)
  have workDir: "(if (if WorkDir sample_args = [] then GITHUB_WORKSPACE sample_env else WorkDir sample_args) = []
                  then os_Getwd sample_env
                  else Inr (if WorkDir sample_args = [] then GITHUB_WORKSPACE sample_env else WorkDir sample_args))
                 = Inr ''w''"
    by (simp add: sample_args_def)
  have found: "(case Some three_files of Some f \<Rightarrow> f | None \<Rightarrow> FindFiles sample_host) ''w''
                  (parseMultilineInput (Files sample_args)) (parseMultilineInput (Excludes sample_args))
               = Inr ([''a.txt''] @ ''b.txt'' # [''c.txt''])"
    by (simp add: three_files_def)
  have opts: "?opts = \<lparr>Armor = ArmorInput sample_args, DetachSign = DetachSignInput sample_args,
                        ClearSign = ClearSignInput sample_args\<rparr>"
    by (simp add: sample_args_def)
  have before: "signed_in_order sample_lib no_gpg (GoPGPSigner ?key) ?opts [''a.txt''] sample_world = Some ?w2"
    by (simp add: GoPGP_SignFile_def os_ReadFile_def os_WriteFile_def sample_world_def
      GoPGP_signature_def createDetachedSignature_def sample_lib_def getOutputPath_def
      getOutputExtension_def)
  have fails: "SignFile sample_lib no_gpg (GoPGPSigner ?key) ''b.txt'' ?opts ?w2
                 = (Some (FailedToReadFile (LibError ''open: cannot read file'')), ?w2)"
    by (simp add: GoPGP_SignFile_def os_ReadFile_def sample_world_def)
  have absent: "disk ?w2 (getOutputPath ''c.txt'' ?opts) = None"
    by (simp add: sample_world_def getOutputPath_def getOutputExtension_def)
  show ?thesis
    using run_fail_fast[OF signer workDir found opts before fails] absent by simp
qed

section \<open>The file set\<close>

subsection \<open>The exclusion test, rule by rule\<close>

lemma shouldExclude_loop_iff:
  "shouldExclude_loop h file workDir (relative_path h workDir file) excludes =
     (\<exists>e \<in> set excludes. TrimSpace e \<noteq> [] \<and> excluded_by h workDir file (TrimSpace e))"
  by (induction excludes)
     (auto simp: Let_def excluded_by_def rule_relative_def rule_base_def rule_recursive_def
        rule_full_def wildcard_stripped_def)

lemma shouldExclude_iff:
  "shouldExclude h file workDir excludes =
     (\<exists>e \<in> set excludes. TrimSpace e \<noteq> [] \<and> excluded_by h workDir file (TrimSpace e))"
  using shouldExclude_loop_iff[of h _ workDir excludes]
  by (simp add: shouldExclude_def relative_path_def)

subsection \<open>The loops keep the first occurrence\<close>

lemma set_first_seen: "set (first_seen xs) = set xs"
  by (induction xs rule: first_seen.induct) auto

lemma distinct_first_seen: "distinct (first_seen xs)"
  by (induction xs rule: first_seen.induct) (auto simp: set_first_seen)

lemma first_seen_append:
  "first_seen (xs @ ys) = first_seen xs @ first_seen (filter (\<lambda>y. y \<notin> set xs) ys)"
proof (induction xs arbitrary: ys rule: first_seen.induct)
  case 1
  then show ?case by simp
next
  case (2 x xs)
  have "filter (\<lambda>y. y \<notin> set (filter (\<lambda>y. y \<noteq> x) xs)) (filter (\<lambda>y. y \<noteq> x) ys)
        = filter (\<lambda>y. y \<notin> set (x # xs)) ys"
    by (auto intro: filter_cong)
  then show ?case using 2[of "filter (\<lambda>y. y \<noteq> x) ys"] by simp
qed

lemma add_new_step:
  "m \<notin> set ms \<Longrightarrow> ok m \<Longrightarrow>
   first_seen (filter (\<lambda>x. x \<notin> set ms \<and> ok x) (m # found))
     = m # first_seen (filter (\<lambda>x. x \<notin> set (ms @ [m]) \<and> ok x) found)"
proof -
  assume a: "m \<notin> set ms" "ok m"
  have "filter (\<lambda>y. y \<noteq> m) (filter (\<lambda>x. x \<notin> set ms \<and> ok x) found)
        = filter (\<lambda>x. x \<notin> set (ms @ [m]) \<and> ok x) found"
    by (auto intro: filter_cong)
  then show ?thesis using a by simp
qed

lemma add_globstar_matches_eq:
  "add_globstar_matches h workDir excludes found (ms, set ms) =
     (ms @ first_seen (filter (\<lambda>m. m \<notin> set ms \<and> \<not> shouldExclude h m workDir excludes) found),
      set (ms @ first_seen (filter (\<lambda>m. m \<notin> set ms \<and> \<not> shouldExclude h m workDir excludes) found)))"
proof (induction found arbitrary: ms)
  case Nil
  then show ?case by simp
next
  case (Cons m found)
  show ?case
  proof (cases "m \<notin> set ms \<and> \<not> shouldExclude h m workDir excludes")
    case True
    have "insert m (set ms) = set (ms @ [m])" by simp
    then show ?thesis
      using True Cons[of "ms @ [m]"]
        add_new_step[of m ms "\<lambda>m. \<not> shouldExclude h m workDir excludes" found]
      by (simp del: filter.simps first_seen.simps set_append)
  next
    case False
    then show ?thesis using Cons[of ms] by auto
  qed
qed

lemma add_glob_matches_eq:
  "add_glob_matches h workDir excludes found (ms, set ms) =
     (ms @ first_seen (filter (\<lambda>m. m \<notin> set ms \<and> (stat_file h m \<and> \<not> shouldExclude h m workDir excludes)) found),
      set (ms @ first_seen (filter (\<lambda>m. m \<notin> set ms \<and> (stat_file h m \<and> \<not> shouldExclude h m workDir excludes)) found)))"
proof (induction found arbitrary: ms)
  case Nil
  then show ?case by simp
next
  case (Cons m found)
  show ?case
  proof (cases "m \<notin> set ms \<and> (stat_file h m \<and> \<not> shouldExclude h m workDir excludes)")
    case True
    have "insert m (set ms) = set (ms @ [m])" by simp
    moreover have "add_glob_matches h workDir excludes (m # found) (ms, set ms)
       = add_glob_matches h workDir excludes found (ms @ [m], insert m (set ms))"
      using True by (auto simp: stat_file_def split: sum.splits)
    ultimately show ?thesis
      using True Cons[of "ms @ [m]"]
        add_new_step[of m ms "\<lambda>m. stat_file h m \<and> \<not> shouldExclude h m workDir excludes" found]
      by (simp del: filter.simps first_seen.simps set_append add_glob_matches.simps)
  next
    case False
    then have "add_glob_matches h workDir excludes (m # found) (ms, set ms)
       = add_glob_matches h workDir excludes found (ms, set ms)"
      by (auto simp: stat_file_def split: sum.splits)
    then show ?thesis using False Cons[of ms] by auto
  qed
qed

lemma first_seen_merge:
  "ms @ first_seen (filter (\<lambda>m. m \<notin> set ms) (A @ B))
   = (ms @ first_seen (filter (\<lambda>m. m \<notin> set ms) A))
     @ first_seen (filter (\<lambda>m. m \<notin> set (ms @ first_seen (filter (\<lambda>m. m \<notin> set ms) A))) B)"
proof -
  have "filter (\<lambda>y. y \<notin> set (filter (\<lambda>m. m \<notin> set ms) A)) (filter (\<lambda>m. m \<notin> set ms) B)
      = filter (\<lambda>m. m \<notin> set (ms @ first_seen (filter (\<lambda>m. m \<notin> set ms) A))) B"
    by (auto simp: set_first_seen intro: filter_cong)
  then show ?thesis by (simp add: first_seen_append)
qed

lemma FindFiles_loop_first_seen:
  "FindFiles_loop h workDir excludes patterns (ms, set ms) = Inr result \<Longrightarrow>
   result = ms @ first_seen (filter (\<lambda>m. m \<notin> set ms)
                     (concat (map (pattern_files h workDir excludes) patterns)))"
proof (induction patterns arbitrary: ms)
  case Nil
  then show ?case by simp
next
  case (Cons p patterns)
  let ?A = "pattern_files h workDir excludes p"
  let ?ms' = "ms @ first_seen (filter (\<lambda>m. m \<notin> set ms) ?A)"
  have step: "FindFiles_loop h workDir excludes patterns (?ms', set ?ms') = Inr result"
  proof (cases "TrimSpace p = []")
    case True
    then show ?thesis using Cons.prems by (simp add: pattern_files_def)
  next
    case False
    show ?thesis
    proof (cases "Contains (TrimSpace p) ''**''")
      case True
      then obtain found where f: "findWithGlobstar h workDir (TrimSpace p) = Inr found"
        using Cons.prems False by (auto simp: Let_def split: sum.splits)
      have "?A = filter (\<lambda>m. \<not> shouldExclude h m workDir excludes) found"
        using f True False by (simp add: pattern_files_def)
      then show ?thesis
        using Cons.prems False True f add_globstar_matches_eq[of h workDir excludes found ms]
        by (simp add: Let_def conj_commute del: set_append)
    next
      case nostar: False
      then obtain found where f: "filepath_Glob h (filepath_Join h workDir (TrimSpace p)) = Inr found"
        using Cons.prems False by (auto simp: Let_def split: sum.splits)
      have "?A = filter (\<lambda>m. stat_file h m \<and> \<not> shouldExclude h m workDir excludes) found"
        using f nostar False by (simp add: pattern_files_def stat_file_def)
      then show ?thesis
        using Cons.prems False nostar f add_glob_matches_eq[of h workDir excludes found ms]
        by (simp add: Let_def conj_commute del: set_append)
    qed
  qed
  show ?case
    using Cons.IH[OF step] first_seen_merge[of ms ?A "concat (map (pattern_files h workDir excludes) patterns)"]
    by simp
qed

text \<open>
  C5. The list \<^verbatim>\<open>FindFiles\<close> returns holds no path twice, and it is the
  merge order (the files of the first include pattern, then those of the
  second, and so on) with every path kept at its first occurrence only.
\<close>

theorem FindFiles_first_seen_order:
  assumes "FindFiles h workDir patterns excludes = Inr result"
  shows "distinct result \<and> result = first_seen (merge_order h workDir patterns excludes)"
proof -
  have "result = first_seen (merge_order h workDir patterns excludes)"
    using assms FindFiles_loop_first_seen[of h "if workDir = [] then ''.'' else workDir" excludes patterns "[]" result]
    by (simp add: FindFiles_def merge_order_def)
  then show ?thesis by (simp add: distinct_first_seen)
qed

theorem FindFiles_first_seen_order_witness:
  "FindFiles sample_host ''w'' [''*.txt'', ''a.*'', ''a.txt'', '' **/*.txt ''] []
     = Inr [''w/a.txt'', ''w/d/c.txt''] \<and>
   merge_order sample_host ''w'' [''*.txt'', ''a.*'', ''a.txt'', '' **/*.txt ''] []
     = [''w/a.txt'', ''w/a.txt'', ''w/a.txt'', ''w/a.txt'', ''w/d/c.txt''] \<and>
   distinct [''w/a.txt'', ''w/d/c.txt''] \<and>
   [''w/a.txt'', ''w/d/c.txt'']
     = first_seen [''w/a.txt'', ''w/a.txt'', ''w/a.txt'', ''w/a.txt'', ''w/d/c.txt'']"
proof -
  have found: "FindFiles sample_host ''w'' [''*.txt'', ''a.*'', ''a.txt'', '' **/*.txt ''] []
                 = Inr [''w/a.txt'', ''w/d/c.txt'']"
    by code_simp
  have merged: "merge_order sample_host ''w'' [''*.txt'', ''a.*'', ''a.txt'', '' **/*.txt ''] []
                  = [''w/a.txt'', ''w/a.txt'', ''w/a.txt'', ''w/a.txt'', ''w/d/c.txt'']"
    by code_simp
  show ?thesis
    using FindFiles_first_seen_order[OF found] found merged by simp
qed

lemma pattern_files_not_excluded:
  "f \<in> set (pattern_files h workDir excludes p) \<Longrightarrow> \<not> shouldExclude h f workDir excludes"
  by (auto simp: pattern_files_def Let_def split: if_splits sum.splits)

text \<open>
  C4. No path \<^verbatim>\<open>FindFiles\<close> returns matches an exclude pattern (trimmed, and
  not empty) under any of the four rules: the pattern against the path
  relative to the working directory, against the base name, its
  wildcard-stripped form against either when it has a recursive wildcard, and
  the pattern joined with the working directory against the full path. The
  include patterns play no part.
\<close>

theorem FindFiles_exclusion_closure:
  assumes "FindFiles h workDir patterns excludes = Inr result"
  shows "\<forall>file \<in> set result. \<forall>e \<in> set excludes. TrimSpace e \<noteq> [] \<longrightarrow>
           \<not> excluded_by h (if workDir = [] then ''.'' else workDir) file (TrimSpace e)"
proof -
  have r: "result = first_seen (merge_order h workDir patterns excludes)"
    using assms FindFiles_loop_first_seen[of h "if workDir = [] then ''.'' else workDir" excludes patterns "[]" result]
    by (simp add: FindFiles_def merge_order_def)
  have "\<not> shouldExclude h f (if workDir = [] then ''.'' else workDir) excludes" if "f \<in> set result" for f
    using that r pattern_files_not_excluded
    by (fastforce simp: set_first_seen merge_order_def)
  then show ?thesis
    unfolding shouldExclude_iff by (cases "workDir = []") auto
qed


theorem FindFiles_exclusion_closure_witness:
  "FindFiles sample_host ''w'' [''*'', ''**/*.txt''] [''*.sha256''] = Inr [''w/a.txt'', ''w/d/c.txt''] \<and>
   \<not> excluded_by sample_host ''w'' ''w/a.txt'' ''*.sha256'' \<and>
   \<not> excluded_by sample_host ''w'' ''w/d/c.txt'' ''*.sha256'' \<and>
   excluded_by sample_host ''w'' ''w/b.sha256'' ''*.sha256''"
proof -
  have found: "FindFiles sample_host ''w'' [''*'', ''**/*.txt''] [''*.sha256'']
                 = Inr [''w/a.txt'', ''w/d/c.txt'']"
    by code_simp
  have trimmed: "TrimSpace ''*.sha256'' = ''*.sha256''"
    by code_simp
  have dropped: "excluded_by sample_host ''w'' ''w/b.sha256'' ''*.sha256''"
    by code_simp
  show ?thesis
    using FindFiles_exclusion_closure[OF found] found trimmed dropped by simp
qed

subsection \<open>Malformed include patterns\<close>







subsection \<open>Recursive wildcards\<close>

lemma HasPrefix_drop: "HasPrefix s p \<Longrightarrow> s = p @ drop (length p) s"
  by (induction s p rule: HasPrefix.induct) auto

lemma Split_nonempty: "Split s sep \<noteq> []"
  by (induction s sep rule: Split.induct) (auto split: list.splits)

lemma Split_join:
  "Split s sep = x # xs \<Longrightarrow> s = x @ concat (map (\<lambda>y. sep @ y) xs)"
proof (induction s sep arbitrary: x xs rule: Split.induct)
  case (1 sep)
  then show ?case by simp
next
  case (2 c cs sep)
  show ?case
  proof (cases "sep \<noteq> [] \<and> HasPrefix (c # cs) sep")
    case True
    then have x: "x = []" and xs: "xs = Split (drop (length sep) (c # cs)) sep"
      using "2.prems" by auto
    obtain y ys where y: "Split (drop (length sep) (c # cs)) sep = y # ys"
      using Split_nonempty[of "drop (length sep) (c # cs)" sep] by (cases "Split (drop (length sep) (c # cs)) sep") auto
    have "drop (length sep) (c # cs) = y @ concat (map (\<lambda>y. sep @ y) ys)"
      using "2.IH"(1)[OF True y] .
    moreover have "c # cs = sep @ drop (length sep) (c # cs)"
      using True HasPrefix_drop by blast
    ultimately show ?thesis using x xs y by simp
  next
    case False
    obtain p ps where p: "Split cs sep = p # ps"
      using Split_nonempty[of cs sep] by (cases "Split cs sep") auto
    then have "x = c # p" "xs = ps" using "2.prems" False by auto
    then show ?thesis using "2.IH"(2)[OF False p] by simp
  qed
qed

lemma Split_two:
  assumes "length (Split s sep) = 2"
  shows "Split s sep ! 0 = hd (Split s sep)"
    and "Split s sep ! 1 = drop (length (hd (Split s sep)) + length sep) s"
proof -
  obtain a b where ab: "Split s sep = [a, b]"
    using assms by (cases "Split s sep"; cases "tl (Split s sep)") auto
  have "s = a @ sep @ b" using Split_join[OF ab] by simp
  then show "Split s sep ! 0 = hd (Split s sep)" and "Split s sep ! 1 = drop (length (hd (Split s sep)) + length sep) s"
    using ab by auto
qed

lemma walkFn_admits:
  "walkFn h root suffix acc v = (if walk_admits h root suffix v then acc @ [fst v] else acc)"
  by (cases v) (auto simp: walkFn_def walk_admits_def matched_def split: sum.splits)

lemma foldl_walkFn:
  "foldl (walkFn h root suffix) acc vs = acc @ map fst (filter (walk_admits h root suffix) vs)"
  by (induction vs arbitrary: acc) (simp_all add: walkFn_admits)

text \<open>
  C7 as stated fails. The include pattern \<^verbatim>\<open>**/**\<close> has a recursive wildcard,
  but splitting it gives three parts, and \<^verbatim>\<open>findWithGlobstar\<close> falls back to
  the single-level \<^verbatim>\<open>Glob\<close> of \<^verbatim>\<open>w/*/*\<close>: of the three regular files under
  \<^verbatim>\<open>w\<close>, which the walk admits, it returns only the one that lies exactly one
  directory down.
\<close>

theorem several_wildcards_not_walked:
  "Contains ''**/**'' ''**'' \<and>
   findWithGlobstar sample_host ''w'' ''**/**'' = Inr [''w/d/c.txt''] \<and>
   walk_resolution sample_host ''w'' ''**/**'' = [''w/a.txt'', ''w/b.sha256'', ''w/d/c.txt'']"
  by code_simp

text \<open>
  C7, as amended. For an include pattern with exactly one recursive wildcard
  (splitting at the wildcard gives two parts), \<^verbatim>\<open>findWithGlobstar\<close> returns
  the resolution by walking: the regular files of the subtree under the prefix
  for which the suffix is empty or matches the base name or the path relative
  to the walked root. Any other pattern it is given is resolved by the
  single-level \<^verbatim>\<open>Glob\<close> of the pattern with each recursive wildcard replaced
  by \<^verbatim>\<open>*\<close>.
\<close>

theorem single_wildcard_walk_resolution:
  "(length (Split pattern ''**'') = 2 \<longrightarrow>
      findWithGlobstar h workDir pattern = Inr (walk_resolution h workDir pattern)) \<and>
   (length (Split pattern ''**'') \<noteq> 2 \<longrightarrow>
      findWithGlobstar h workDir pattern
        = filepath_Glob h (filepath_Join h workDir (ReplaceAll pattern ''**'' ''*'')))"
proof (cases "length (Split pattern ''**'') = 2")
  case True
  then show ?thesis
    using Split_two[OF True]
    by (simp add: findWithGlobstar_def walk_resolution_def Let_def foldl_walkFn)
next
  case False
  then show ?thesis by (simp add: findWithGlobstar_def Let_def)
qed

theorem single_wildcard_walk_resolution_witness:
  "length (Split ''**/*.txt'' ''**'') = 2 \<and>
   findWithGlobstar sample_host ''w'' ''**/*.txt'' = Inr [''w/a.txt'', ''w/d/c.txt''] \<and>
   length (Split ''**/**'' ''**'') \<noteq> 2 \<and>
   findWithGlobstar sample_host ''w'' ''**/**'' = filepath_Glob sample_host ''w/*/*''"
proof -
  have two: "length (Split ''**/*.txt'' ''**'') = 2" by code_simp
  have walked: "walk_resolution sample_host ''w'' ''**/*.txt'' = [''w/a.txt'', ''w/d/c.txt'']"
    by code_simp
  have three: "length (Split ''**/**'' ''**'') \<noteq> 2" by code_simp
  have single_level: "filepath_Join sample_host ''w'' (ReplaceAll ''**/**'' ''**'' ''*'') = ''w/*/*''"
    by code_simp
  have "findWithGlobstar sample_host ''w'' ''**/*.txt'' = Inr (walk_resolution sample_host ''w'' ''**/*.txt'')"
    using single_wildcard_walk_resolution[of "''**/*.txt''" sample_host "''w''", THEN conjunct1, rule_format, OF two] .
  moreover have "findWithGlobstar sample_host ''w'' ''**/**''
                   = filepath_Glob sample_host (filepath_Join sample_host ''w'' (ReplaceAll ''**/**'' ''**'' ''*''))"
    using single_wildcard_walk_resolution[of "''**/**''" sample_host "''w''", THEN conjunct2, rule_format, OF three] .
  ultimately show ?thesis
    using two walked three single_level by simp
qed

end
